theory Spec2Isabelle
  imports Complex_Main "HOL-Library.Sublist"
begin

section \<open>JSON values as the Python side sees them\<close>

text \<open>
  \<^verbatim>\<open>json.loads\<close> returns \<^verbatim>\<open>None\<close>, \<^verbatim>\<open>bool\<close>, \<^verbatim>\<open>int\<close>, \<^verbatim>\<open>float\<close>, \<^verbatim>\<open>str\<close>,
  \<^verbatim>\<open>list\<close> or \<^verbatim>\<open>dict\<close>. A dict keeps its keys in order, so it is an association list
  (the library yields distinct keys). A Python float is idealised as the exact rational:
  rounding, infinities and NaN are not modelled. Rounding is monotone, so an order
  \<open>\<le>\<close> between two scaled coordinates that holds here holds for the floats as well.
\<close>

datatype json =
    JNull
  | JBool bool
  | JInt int
  | JFloat rat
  | JStr string
  | JArr "json list"
  | JObj "(string \<times> json) list"

text \<open>The exception classes the code can meet; messages are not modelled.\<close>

datatype exn = JSONDecodeError | AttributeError | TypeError | ValueError | OverflowError

text \<open>\<^verbatim>\<open>obj.get(key, default)\<close>: only a dict has the method.\<close>

fun dict_get :: "json \<Rightarrow> string \<Rightarrow> json \<Rightarrow> exn + json" where
  "dict_get (JObj kvs) k d = Inr (case map_of kvs k of None \<Rightarrow> d | Some v \<Rightarrow> v)"
| "dict_get _ k d = Inl AttributeError"

text \<open>Truth value of an object in \<^verbatim>\<open>if box and ...\<close>.\<close>

fun truthy :: "json \<Rightarrow> bool" where
  "truthy JNull = False"
| "truthy (JBool b) = b"
| "truthy (JInt i) = (i \<noteq> 0)"
| "truthy (JFloat r) = (r \<noteq> 0)"
| "truthy (JStr s) = (s \<noteq> [])"
| "truthy (JArr xs) = (xs \<noteq> [])"
| "truthy (JObj kvs) = (kvs \<noteq> [])"

text \<open>\<^verbatim>\<open>len(box)\<close>: numbers, booleans and \<^verbatim>\<open>None\<close> have no length.\<close>

fun py_len :: "json \<Rightarrow> exn + nat" where
  "py_len (JStr s) = Inr (length s)"
| "py_len (JArr xs) = Inr (length xs)"
| "py_len (JObj kvs) = Inr (length kvs)"
| "py_len _ = Inl TypeError"

text \<open>
  Iteration (\<^verbatim>\<open>for item in layout_items\<close>, tuple unpacking): a list yields its elements,
  a string its characters, a dict its keys.
\<close>

fun py_iter :: "json \<Rightarrow> exn + json list" where
  "py_iter (JArr xs) = Inr xs"
| "py_iter (JStr s) = Inr (map (\<lambda>c. JStr [c]) s)"
| "py_iter (JObj kvs) = Inr (map (\<lambda>kv. JStr (fst kv)) kvs)"
| "py_iter _ = Inl TypeError"

text \<open>\<^verbatim>\<open>ymin, xmin, ymax, xmax = box\<close>.\<close>

definition unpack4 :: "json \<Rightarrow> exn + (json \<times> json \<times> json \<times> json)" where
  "unpack4 box =
     (case py_iter box of
        Inl e \<Rightarrow> Inl e
      | Inr [a, b, c, d] \<Rightarrow> Inr (a, b, c, d)
      | Inr _ \<Rightarrow> Inl ValueError)"

text \<open>
  Numbers in arithmetic and comparisons: \<^verbatim>\<open>int\<close>, \<^verbatim>\<open>float\<close> and \<^verbatim>\<open>bool\<close> (a subclass of
  \<^verbatim>\<open>int\<close>). Anything else raises \<^verbatim>\<open>TypeError\<close>. Numbers compare by their exact values.
\<close>

fun py_number :: "json \<Rightarrow> exn + rat" where
  "py_number (JInt i) = Inr (of_int i)"
| "py_number (JFloat r) = Inr r"
| "py_number (JBool b) = Inr (if b then 1 else 0)"
| "py_number _ = Inl TypeError"

text \<open>
  \<^verbatim>\<open>a < b\<close> as used by \<^verbatim>\<open>min\<close> and \<^verbatim>\<open>max\<close>. Two strings or two lists also compare in
  Python, but then the division that follows raises \<^verbatim>\<open>TypeError\<close> before anything is
  drawn; the model raises the same class of exception here, at the comparison.
\<close>

definition py_lt :: "json \<Rightarrow> json \<Rightarrow> exn + bool" where
  "py_lt a b =
     (case py_number a of
        Inl e \<Rightarrow> Inl e
      | Inr x \<Rightarrow> (case py_number b of Inl e \<Rightarrow> Inl e | Inr y \<Rightarrow> Inr (x < y)))"

text \<open>\<^verbatim>\<open>min(a, b)\<close> keeps \<^verbatim>\<open>a\<close> unless \<^verbatim>\<open>b < a\<close>; \<^verbatim>\<open>max(a, b)\<close> keeps \<^verbatim>\<open>a\<close> unless \<^verbatim>\<open>b > a\<close>.\<close>

definition py_min :: "json \<Rightarrow> json \<Rightarrow> exn + json" where
  "py_min a b = (case py_lt b a of Inl e \<Rightarrow> Inl e | Inr lt \<Rightarrow> Inr (if lt then b else a))"

definition py_max :: "json \<Rightarrow> json \<Rightarrow> exn + json" where
  "py_max a b = (case py_lt a b of Inl e \<Rightarrow> Inl e | Inr lt \<Rightarrow> Inr (if lt then b else a))"

text \<open>
  The division \<^verbatim>\<open>value / 1000\<close>. An \<^verbatim>\<open>int\<close> of any size is divided exactly and the quotient rounded
  to a float; \<^verbatim>\<open>OverflowError\<close> is raised when it rounds beyond the largest float, that is
  from \<open>2 ^ 1024 - 2 ^ 970\<close> on. A float divided by 1000 is a float.
\<close>

definition float_limit :: rat where
  "float_limit = 2 ^ 1024 - 2 ^ 970"

fun truediv_1000 :: "json \<Rightarrow> exn + rat" where
  "truediv_1000 (JInt i) =
     (if float_limit \<le> \<bar>of_int i / 1000\<bar> then Inl OverflowError else Inr (of_int i / 1000))"
| "truediv_1000 (JFloat r) = Inr (r / 1000)"
| "truediv_1000 (JBool b) = Inr ((if b then 1 else 0) / 1000)"
| "truediv_1000 _ = Inl TypeError"

section \<open>Coordinate normalisation\<close>

text \<open>
  The two box-drawing functions: \<^verbatim>\<open>gemini_Testing.py\<close> and
  \<^verbatim>\<open>surya ocr/claude_testing.py\<close> (the Groq integration).
\<close>

datatype variant = Gemini | Groq

text \<open>A pixel rectangle \<open>(x1, y1, x2, y2)\<close>.\<close>

type_synonym rect = "rat \<times> rat \<times> rat \<times> rat"

text \<open>
  The scaling \<^verbatim>\<open>(value / 1000) * extent\<close>. The product of two floats raises nothing; it is
  the exact product here.
\<close>

definition scale_coord :: "json \<Rightarrow> nat \<Rightarrow> exn + rat" where
  "scale_coord c extent =
     (case truediv_1000 c of Inl e \<Rightarrow> Inl e | Inr q \<Rightarrow> Inr (q * of_nat extent))"

text \<open>
  The four scalings, in the order of the source:
  \<^verbatim>\<open>x1 = (xmin / 1000) * width; y1 = (ymin / 1000) * height;
  x2 = (xmax / 1000) * width; y2 = (ymax / 1000) * height\<close>.
\<close>

definition scale_box :: "nat \<Rightarrow> nat \<Rightarrow> json \<Rightarrow> json \<Rightarrow> json \<Rightarrow> json \<Rightarrow> exn + rect" where
  "scale_box width height ymin xmin ymax xmax =
     (case scale_coord xmin width of Inl e \<Rightarrow> Inl e | Inr x1 \<Rightarrow>
     (case scale_coord ymin height of Inl e \<Rightarrow> Inl e | Inr y1 \<Rightarrow>
     (case scale_coord xmax width of Inl e \<Rightarrow> Inl e | Inr x2 \<Rightarrow>
     (case scale_coord ymax height of Inl e \<Rightarrow> Inl e | Inr y2 \<Rightarrow>
        Inr (x1, y1, x2, y2)))))"

text \<open>
  From the unpacked box to the pixel rectangle. Only the Gemini file has the lines
  \<^verbatim>\<open>ymin, ymax = min(ymin, ymax), max(ymin, ymax)\<close> and
  \<^verbatim>\<open>xmin, xmax = min(xmin, xmax), max(xmin, xmax)\<close>; the Groq file scales the box as
  it comes.
\<close>

fun normalize :: "variant \<Rightarrow> nat \<Rightarrow> nat \<Rightarrow> json \<Rightarrow> json \<Rightarrow> json \<Rightarrow> json \<Rightarrow> exn + rect" where
  "normalize Gemini width height ymin xmin ymax xmax =
     (case py_min ymin ymax of Inl e \<Rightarrow> Inl e | Inr ymin' \<Rightarrow>
     (case py_max ymin ymax of Inl e \<Rightarrow> Inl e | Inr ymax' \<Rightarrow>
     (case py_min xmin xmax of Inl e \<Rightarrow> Inl e | Inr xmin' \<Rightarrow>
     (case py_max xmin xmax of Inl e \<Rightarrow> Inl e | Inr xmax' \<Rightarrow>
        scale_box width height ymin' xmin' ymax' xmax'))))"
| "normalize Groq width height ymin xmin ymax xmax =
     scale_box width height ymin xmin ymax xmax"

section \<open>Images and the object store\<close>

text \<open>
  A call \<^verbatim>\<open>draw.rectangle([x1, y1, x2, y2], outline="red", width=3)\<close> of the imaging
  library is recorded with its arguments, in the order the calls are made. What the
  library paints for a rectangle is outside this model.
\<close>

datatype shape = Rectangle rect string nat

text \<open>
  The library refuses a rectangle \<open>(x0, y0, x1, y1)\<close> with \<open>x1 < x0\<close> or \<open>y1 < y0\<close>: it raises
  \<^verbatim>\<open>ValueError\<close> (\<^verbatim>\<open>x1 must be greater than or equal to x0\<close>) and paints nothing.
\<close>

fun swapped :: "rect \<Rightarrow> bool" where
  "swapped (x0, y0, x1, y1) = (x1 < x0 \<or> y1 < y0)"

text \<open>
  An RGB image: its size \<open>(width, height)\<close>, the pixel data it was decoded to, and the
  shapes drawn on it since. What the image shows is a function of the three.
\<close>

record image =
  img_size :: "nat \<times> nat"
  img_pixels :: "(nat \<times> nat \<times> nat) list"
  img_drawn :: "shape list"

text \<open>
  Image objects are mutable and passed by reference: the store is the list of all image
  objects, a reference is an index into it.
\<close>

type_synonym store = "image list"

text \<open>\<^verbatim>\<open>image.copy()\<close>: a new object with the same content.\<close>

definition image_copy :: "store \<Rightarrow> nat \<Rightarrow> store \<times> nat" where
  "image_copy h img = (h @ [h ! img], length h)"

text \<open>\<^verbatim>\<open>draw.rectangle(xy, outline="red", width=3)\<close> on the object \<open>img\<close>, in place.\<close>

definition draw_rectangle :: "store \<Rightarrow> nat \<Rightarrow> rect \<Rightarrow> exn + store" where
  "draw_rectangle h img xy =
     (if swapped xy then Inl ValueError
      else Inr (h[img := (h ! img)\<lparr>img_drawn :=
                  img_drawn (h ! img) @ [Rectangle xy ''red'' 3]\<rparr>]))"

section \<open>Drawing the boxes\<close>

text \<open>
  What one pass of the loop body decides for \<open>item\<close>: an exception, nothing to draw, or the
  rectangle to draw.
  \<^verbatim>\<open>box = item.get("box_2d"); if box and len(box) == 4: ymin, xmin, ymax, xmax = box; ...\<close>
\<close>

definition item_box :: "variant \<Rightarrow> nat \<Rightarrow> nat \<Rightarrow> json \<Rightarrow> exn + rect option" where
  "item_box v width height item =
     (case dict_get item ''box_2d'' JNull of
        Inl e \<Rightarrow> Inl e
      | Inr box \<Rightarrow>
          if \<not> truthy box then Inr None
          else (case py_len box of
                  Inl e \<Rightarrow> Inl e
                | Inr n \<Rightarrow>
                    if n \<noteq> 4 then Inr None
                    else (case unpack4 box of
                            Inl e \<Rightarrow> Inl e
                          | Inr (ymin, xmin, ymax, xmax) \<Rightarrow>
                              (case normalize v width height ymin xmin ymax xmax of
                                 Inl e \<Rightarrow> Inl e
                               | Inr xy \<Rightarrow> Inr (Some xy)))))"

text \<open>
  \<^verbatim>\<open>for item in layout_items\<close>. An exception leaves the loop; what was drawn before it
  stays drawn.
\<close>

fun draw_items :: "variant \<Rightarrow> nat \<Rightarrow> nat \<Rightarrow> store \<Rightarrow> nat \<Rightarrow> json list \<Rightarrow> store \<times> exn option" where
  "draw_items v width height h img [] = (h, None)"
| "draw_items v width height h img (item # items) =
     (case item_box v width height item of
        Inl e \<Rightarrow> (h, Some e)
      | Inr None \<Rightarrow> draw_items v width height h img items
      | Inr (Some xy) \<Rightarrow>
          (case draw_rectangle h img xy of
             Inl e \<Rightarrow> (h, Some e)
           | Inr h' \<Rightarrow> draw_items v width height h' img items))"

text \<open>
  \<^verbatim>\<open>draw_boxes_on_image(image, json_response)\<close>: draws on the object it is given and
  returns the same reference.
\<close>

definition draw_boxes_on_image :: "variant \<Rightarrow> store \<Rightarrow> nat \<Rightarrow> json \<Rightarrow> store \<times> (exn + nat)" where
  "draw_boxes_on_image v h img json_response =
     (case img_size (h ! img) of (width, height) \<Rightarrow>
       (case dict_get json_response ''layout'' (JArr []) of
          Inl e \<Rightarrow> (h, Inl e)
        | Inr layout_items \<Rightarrow>
            (case py_iter layout_items of
               Inl e \<Rightarrow> (h, Inl e)
             | Inr items \<Rightarrow>
                 (case draw_items v width height h img items of
                    (h', Some e) \<Rightarrow> (h', Inl e)
                  | (h', None) \<Rightarrow> (h', Inr img)))))"

text \<open>
  \<^verbatim>\<open>annotated_image = image.copy(); final_image = draw_boxes_on_image(annotated_image, data)\<close>.
\<close>

definition annotate :: "variant \<Rightarrow> store \<Rightarrow> nat \<Rightarrow> json \<Rightarrow> store \<times> (exn + nat)" where
  "annotate v h img data =
     (case image_copy h img of (h1, annotated_image) \<Rightarrow>
        draw_boxes_on_image v h1 annotated_image data)"

text \<open>\<^verbatim>\<open>data.get("structured_data", {})\<close>.\<close>

definition clean_display :: "json \<Rightarrow> exn + json" where
  "clean_display data = dict_get data ''structured_data'' (JObj [])"

section \<open>What the page shows\<close>

text \<open>
  The calls into the page, in order. \<open>StImage\<close> carries the image as it is when shown;
  \<open>StErrorExc e\<close> is \<^verbatim>\<open>st.error(f"Error: {e}")\<close>.
\<close>

datatype ui =
    StSubheader string
  | StImage image string
  | StDivider
  | StJson json
  | StDownloadButton string string string
  | StWarning string
  | StError string
  | StErrorExc exn
  | StCode string

text \<open>
  The body of the button handler of \<^verbatim>\<open>gemini_Testing.py\<close> once the model has answered.
  \<open>loads\<close> is \<^verbatim>\<open>json.loads\<close>, a library function (\<open>None\<close>: it raises
  \<^verbatim>\<open>JSONDecodeError\<close>); \<open>response_text\<close> is \<^verbatim>\<open>response.text\<close>.
\<close>

definition gemini_on_response ::
  "(string \<Rightarrow> json option) \<Rightarrow> store \<Rightarrow> nat \<Rightarrow> string option \<Rightarrow> store \<times> ui list" where
  "gemini_on_response loads h img response_text =
     (case response_text of
        None \<Rightarrow> (h, [StWarning ''No response generated.''])
      | Some text \<Rightarrow>
          if text = [] then (h, [StWarning ''No response generated.''])
          else (case loads text of
                  None \<Rightarrow> (h, [StErrorExc JSONDecodeError])
                | Some data \<Rightarrow>
                    (case annotate Gemini h img data of
                       (h', Inl e) \<Rightarrow> (h', [StErrorExc e])
                     | (h', Inr final_image) \<Rightarrow>
                         (case clean_display data of
                            Inl e \<Rightarrow>
                              (h', [StSubheader ''Visualized Output'',
                                    StImage (h' ! final_image) ''Gemini Detected Regions'',
                                    StDivider,
                                    StSubheader ''Extracted JSON Data'',
                                    StErrorExc e])
                          | Inr shown \<Rightarrow>
                              (h', [StSubheader ''Visualized Output'',
                                    StImage (h' ! final_image) ''Gemini Detected Regions'',
                                    StDivider,
                                    StSubheader ''Extracted JSON Data'',
                                    StJson shown,
                                    StDownloadButton ''Download Full JSON'' text
                                      ''ocr_result.json''])))))"

text \<open>
  The same for \<^verbatim>\<open>surya ocr/claude_testing.py\<close>; \<open>content\<close> is
  \<^verbatim>\<open>response.choices[0].message.content\<close>, and \<^verbatim>\<open>json.loads(None)\<close> raises
  \<^verbatim>\<open>TypeError\<close>. This file has a handler of its own for \<^verbatim>\<open>JSONDecodeError\<close>.
\<close>

definition groq_on_response ::
  "(string \<Rightarrow> json option) \<Rightarrow> store \<Rightarrow> nat \<Rightarrow> string option \<Rightarrow> store \<times> ui list" where
  "groq_on_response loads h img content =
     (case content of
        None \<Rightarrow> (h, [StErrorExc TypeError])
      | Some text \<Rightarrow>
          (case loads text of
             None \<Rightarrow> (h, [StError ''Groq returned invalid JSON. Try again.'', StCode text])
           | Some data \<Rightarrow>
               (case annotate Groq h img data of
                  (h', Inl e) \<Rightarrow> (h', [StErrorExc e])
                | (h', Inr final_image) \<Rightarrow>
                    (case clean_display data of
                       Inl e \<Rightarrow>
                         (h', [StSubheader ''Visualized Output'',
                               StImage (h' ! final_image) ''Llama 3.2 Detected Regions'',
                               StDivider,
                               StSubheader ''Extracted JSON'',
                               StErrorExc e])
                     | Inr shown \<Rightarrow>
                         (h', [StSubheader ''Visualized Output'',
                               StImage (h' ! final_image) ''Llama 3.2 Detected Regions'',
                               StDivider,
                               StSubheader ''Extracted JSON'',
                               StJson shown,
                               StDownloadButton ''Download JSON'' text ''groq_ocr.json''])))))"

text \<open>What \<^verbatim>\<open>st.json\<close> and \<^verbatim>\<open>st.image\<close> were given.\<close>

fun json_shown :: "ui list \<Rightarrow> json list" where
  "json_shown [] = []"
| "json_shown (StJson j # evs) = j # json_shown evs"
| "json_shown (_ # evs) = json_shown evs"

fun images_shown :: "ui list \<Rightarrow> image list" where
  "images_shown [] = []"
| "images_shown (StImage i c # evs) = i # images_shown evs"
| "images_shown (_ # evs) = images_shown evs"

text \<open>Either handler, by the file it is in.\<close>

definition on_response ::
  "variant \<Rightarrow> (string \<Rightarrow> json option) \<Rightarrow> store \<Rightarrow> nat \<Rightarrow> string option \<Rightarrow> store \<times> ui list" where
  "on_response v = (case v of Gemini \<Rightarrow> gemini_on_response | Groq \<Rightarrow> groq_on_response)"

text \<open>The calls that report a failure: \<^verbatim>\<open>st.error\<close>, \<^verbatim>\<open>st.warning\<close>.\<close>

fun is_error :: "ui \<Rightarrow> bool" where
  "is_error (StError m) = True"
| "is_error (StErrorExc e) = True"
| "is_error (StWarning m) = True"
| "is_error _ = False"

section \<open>The loop, read as a plan\<close>

text \<open>
  The rectangles a run of the loop over \<open>items\<close> draws, in order, and the exception that
  ends it, if any. It decides item by item as \<open>draw_items\<close> does and touches no image.
\<close>

fun boxes_of :: "variant \<Rightarrow> nat \<Rightarrow> nat \<Rightarrow> json list \<Rightarrow> rect list \<times> exn option" where
  "boxes_of v width height [] = ([], None)"
| "boxes_of v width height (item # items) =
     (case item_box v width height item of
        Inl e \<Rightarrow> ([], Some e)
      | Inr None \<Rightarrow> boxes_of v width height items
      | Inr (Some xy) \<Rightarrow>
          if swapped xy then ([], Some ValueError)
          else (case boxes_of v width height items of (xys, r) \<Rightarrow> (xy # xys, r)))"

text \<open>Drawing a list of rectangles on one object of the store.\<close>

definition draw_all :: "store \<Rightarrow> nat \<Rightarrow> rect list \<Rightarrow> store" where
  "draw_all h img xys =
     h[img := (h ! img)\<lparr>img_drawn :=
         img_drawn (h ! img) @ map (\<lambda>xy. Rectangle xy ''red'' 3) xys\<rparr>]"

text \<open>
  The same for \<open>draw_boxes_on_image\<close> as a whole: the lookup of \<^verbatim>\<open>layout\<close> and the
  iteration over it can raise before the loop starts.
\<close>

definition layout_plan :: "variant \<Rightarrow> nat \<times> nat \<Rightarrow> json \<Rightarrow> rect list \<times> exn option" where
  "layout_plan v sz json_response =
     (case dict_get json_response ''layout'' (JArr []) of
        Inl e \<Rightarrow> ([], Some e)
      | Inr layout_items \<Rightarrow>
          (case py_iter layout_items of
             Inl e \<Rightarrow> ([], Some e)
           | Inr items \<Rightarrow> boxes_of v (fst sz) (snd sz) items))"

text \<open>An image with a list of rectangles drawn on it.\<close>

definition drawn_on :: "image \<Rightarrow> rect list \<Rightarrow> image" where
  "drawn_on i xys = i\<lparr>img_drawn := img_drawn i @ map (\<lambda>xy. Rectangle xy ''red'' 3) xys\<rparr>"

section \<open>Layout entries\<close>


text \<open>The value of a number; a number on the scale from 0 to 1000 of the prompt.\<close>

fun num :: "json \<Rightarrow> rat" where
  "num (JInt i) = of_int i"
| "num (JFloat r) = r"
| "num (JBool b) = (if b then 1 else 0)"
| "num _ = 0"

fun on_scale :: "json \<Rightarrow> bool" where
  "on_scale (JInt i) = (0 \<le> i \<and> i \<le> 1000)"
| "on_scale (JFloat r) = (0 \<le> r \<and> r \<le> 1000)"
| "on_scale (JBool b) = True"
| "on_scale _ = False"



section \<open>Example data\<close>

text \<open>A white page of the given size, as loaded: nothing drawn on it.\<close>

definition blank_image :: "nat \<Rightarrow> nat \<Rightarrow> image" where
  "blank_image width height =
     \<lparr>img_size = (width, height),
      img_pixels = replicate (width * height) (255, 255, 255),
      img_drawn = []\<rparr>"

text \<open>The response of the end-to-end example, as text and as the value it parses to.\<close>

definition invoice_text :: string where
  \<open>invoice_text =
     ''{"structured_data":{"invoice":"A1"},"layout":[{"text":"Invoice","box_2d":[0,0,100,500]}]}''\<close>

definition invoice_data :: json where
  "invoice_data =
     JObj [(''structured_data'', JObj [(''invoice'', JStr ''A1'')]),
           (''layout'', JArr [JObj [(''text'', JStr ''Invoice''),
                                    (''box_2d'', JArr [JInt 0, JInt 0, JInt 100, JInt 500])]])]"

section \<open>The image sent to the model\<close>

text \<open>
  \<^verbatim>\<open>LLM.py\<close>, \<^verbatim>\<open>openAI_Testing.py\<close> and \<^verbatim>\<open>surya ocr/claude_testing.py\<close> send the uploaded
  bytes in a data URL. (\<^verbatim>\<open>gemini_Testing.py\<close> hands the decoded image object to its client
  library and builds no URL.) The uploaders take \<^verbatim>\<open>jpg\<close>, \<^verbatim>\<open>png\<close>, \<^verbatim>\<open>jpeg\<close> and, except
  in \<^verbatim>\<open>openAI_Testing.py\<close>, \<^verbatim>\<open>webp\<close>.
\<close>

record uploaded_file =
  file_name :: string
  file_type :: string
  file_bytes :: "nat list"

text \<open>
  \<^verbatim>\<open>base64.b64encode(uploaded_file.getvalue()).decode("utf-8")\<close>; \<open>b64encode\<close> is the
  library's encoder.
\<close>

definition encode_image :: "(nat list \<Rightarrow> string) \<Rightarrow> uploaded_file \<Rightarrow> string" where
  "encode_image b64encode uploaded_file = b64encode (file_bytes uploaded_file)"

datatype integration = OpenRouter | OpenAI | GroqVision

text \<open>
  The image part of the user message: \<^verbatim>\<open>{"type": "image_url", "image_url": {"url": ...}}\<close>
  in \<^verbatim>\<open>LLM.py\<close> and \<^verbatim>\<open>claude_testing.py\<close>,
  \<^verbatim>\<open>{"type": "input_image", "image_url": ...}\<close> in \<^verbatim>\<open>openAI_Testing.py\<close>.
\<close>

datatype content_part = ImageUrl string | InputImage string

fun image_part :: "integration \<Rightarrow> (nat list \<Rightarrow> string) \<Rightarrow> uploaded_file \<Rightarrow> content_part" where
  "image_part OpenRouter b64encode uploaded_file =
     ImageUrl (''data:image/jpeg;base64,'' @ encode_image b64encode uploaded_file)"
| "image_part OpenAI b64encode uploaded_file =
     InputImage (''data:image/jpeg;base64,'' @ encode_image b64encode uploaded_file)"
| "image_part GroqVision b64encode uploaded_file =
     ImageUrl (''data:image/jpeg;base64,'' @ encode_image b64encode uploaded_file)"

fun part_url :: "content_part \<Rightarrow> string" where
  "part_url (ImageUrl url) = url"
| "part_url (InputImage url) = url"

section \<open>The loop and its plan agree\<close>

lemma draw_rectangle_ok:
  "\<not> swapped xy \<Longrightarrow>
   draw_rectangle h a xy =
     Inr (h[a := (h ! a)\<lparr>img_drawn := img_drawn (h ! a) @ [Rectangle xy ''red'' 3]\<rparr>])"
  by (simp add: draw_rectangle_def)

lemma draw_rectangle_swapped: "swapped xy \<Longrightarrow> draw_rectangle h a xy = Inl ValueError"
  by (simp add: draw_rectangle_def)

lemma draw_all_Nil: "a < length h \<Longrightarrow> draw_all h a [] = h"
  by (simp add: draw_all_def)

lemma draw_all_Cons:
  "a < length h \<Longrightarrow>
   draw_all (h[a := (h ! a)\<lparr>img_drawn := img_drawn (h ! a) @ [Rectangle xy ''red'' 3]\<rparr>]) a xys =
   draw_all h a (xy # xys)"
  by (simp add: draw_all_def)

lemma draw_items_boxes:
  "a < length h \<Longrightarrow>
   draw_items v w hg h a items =
     (draw_all h a (fst (boxes_of v w hg items)), snd (boxes_of v w hg items))"
proof (induction items arbitrary: h)
  case Nil
  then show ?case by (simp add: draw_all_Nil)
next
  case (Cons item items)
  show ?case
  proof (cases "item_box v w hg item")
    case (Inl e)
    with Cons.prems show ?thesis by (simp add: draw_all_Nil)
  next
    case (Inr ob)
    show ?thesis
    proof (cases ob)
      case None
      with Inr Cons show ?thesis by simp
    next
      case (Some xy)
      show ?thesis
      proof (cases "swapped xy")
        case True
        with Inr Some Cons.prems show ?thesis
          by (simp add: draw_rectangle_swapped draw_all_Nil)
      next
        case False
        let ?h' = "h[a := (h ! a)\<lparr>img_drawn := img_drawn (h ! a) @ [Rectangle xy ''red'' 3]\<rparr>]"
        have "a < length ?h'" using Cons.prems by simp
        from Cons.IH[OF this] Inr Some False Cons.prems show ?thesis
          by (simp add: draw_rectangle_ok draw_all_Cons split: prod.splits)
      qed
    qed
  qed
qed

lemma draw_boxes_plan:
  assumes "a < length h"
  shows "draw_boxes_on_image v h a data =
           (draw_all h a (fst (layout_plan v (img_size (h ! a)) data)),
            case snd (layout_plan v (img_size (h ! a)) data) of
              None \<Rightarrow> Inr a | Some e \<Rightarrow> Inl e)"
  using assms
  by (auto simp: draw_boxes_on_image_def layout_plan_def draw_items_boxes draw_all_Nil
      split: prod.splits sum.splits option.splits)

text \<open>
  Copy, then draw: the store grows by one object, the copy with the planned rectangles on
  it, and the reference returned is the new one.
\<close>

lemma annotate_plan:
  "annotate v h img data =
     (h @ [drawn_on (h ! img) (fst (layout_plan v (img_size (h ! img)) data))],
      case snd (layout_plan v (img_size (h ! img)) data) of
        None \<Rightarrow> Inr (length h) | Some e \<Rightarrow> Inl e)"
  by (simp add: annotate_def image_copy_def draw_boxes_plan draw_all_def drawn_on_def)

section \<open>Coordinate normalisation: order of the corners\<close>

lemma float_limit_gt_one: "1 < float_limit"
  by (simp add: float_limit_def)

lemma on_scale_bounds: "on_scale c \<Longrightarrow> 0 \<le> num c \<and> num c \<le> 1000"
  by (cases c) simp_all


text \<open>A number on the scale divides without overflow.\<close>

lemma truediv_on_scale: "on_scale c \<Longrightarrow> truediv_1000 c = Inr (num c / 1000)"
proof (cases c)
  case (JInt i)
  assume "on_scale c"
  with JInt have "\<bar>(of_int i :: rat) / 1000\<bar> \<le> 1" by simp
  with float_limit_gt_one have "\<not> float_limit \<le> \<bar>(of_int i :: rat) / 1000\<bar>" by linarith
  with JInt show ?thesis by simp
qed simp_all

lemma scale_coord_on_scale:
  "on_scale c \<Longrightarrow> scale_coord c n = Inr ((num c / 1000) * of_nat n)"
  by (simp add: scale_coord_def truediv_on_scale)

lemma scale_box_on_scale:
  assumes "on_scale ymin" "on_scale xmin" "on_scale ymax" "on_scale xmax"
  shows "scale_box w hg ymin xmin ymax xmax =
           Inr ((num xmin / 1000) * of_nat w, (num ymin / 1000) * of_nat hg,
                (num xmax / 1000) * of_nat w, (num ymax / 1000) * of_nat hg)"
  using assms by (simp add: scale_box_def scale_coord_on_scale)








text \<open>
  C1. The claim asks, of both box-drawing functions, that a box with values in \<open>[0, 1000]\<close>
  in any corner order becomes a rectangle with \<open>x1 \<le> x2\<close> and \<open>y1 \<le> y2\<close>. The function in
  \<^verbatim>\<open>surya ocr/claude_testing.py\<close> lacks the two reordering lines of its sibling: on a
  1000 by 1000 image the box \<open>[500, 400, 100, 200]\<close> becomes the rectangle
  \<open>(400, 500, 200, 100)\<close>, with \<open>x1 > x2\<close> and \<open>y1 > y2\<close>. The library refuses it, so the
  drawing ends in \<^verbatim>\<open>ValueError\<close> with nothing drawn on the copy, where the sibling draws
  the rectangle \<open>(200, 100, 400, 500)\<close>.
\<close>

theorem groq_normalize_keeps_swapped_corners:
  "normalize Groq 1000 1000 (JInt 500) (JInt 400) (JInt 100) (JInt 200) =
     Inr (400, 500, 200, 100)
   \<and> annotate Groq [blank_image 1000 1000] 0
       (JObj [(''layout'', JArr [JObj [(''text'', JStr ''T''),
          (''box_2d'', JArr [JInt 500, JInt 400, JInt 100, JInt 200])]])]) =
     ([blank_image 1000 1000, blank_image 1000 1000], Inl ValueError)
   \<and> annotate Gemini [blank_image 1000 1000] 0
       (JObj [(''layout'', JArr [JObj [(''text'', JStr ''T''),
          (''box_2d'', JArr [JInt 500, JInt 400, JInt 100, JInt 200])]])]) =
     ([blank_image 1000 1000,
       (blank_image 1000 1000)\<lparr>img_drawn := [Rectangle (200, 100, 400, 500) ''red'' 3]\<rparr>],
      Inr 1)"
  by (simp add: annotate_plan layout_plan_def item_box_def unpack4_def py_min_def py_max_def
        py_lt_def scale_box_on_scale drawn_on_def blank_image_def)

section \<open>The end-to-end example\<close>

lemma layout_plan_invoice:
  "layout_plan v (1000, 2000) invoice_data = ([(0, 0, 500, 200)], None)"
  by (cases v)
     (simp_all add: layout_plan_def invoice_data_def item_box_def unpack4_def py_min_def
        py_max_def py_lt_def scale_box_on_scale)

lemma layout_plan_invoice_wide:
  "layout_plan v (2000, 1000) invoice_data = ([(0, 0, 1000, 100)], None)"
  by (cases v)
     (simp_all add: layout_plan_def invoice_data_def item_box_def unpack4_def py_min_def
        py_max_def py_lt_def scale_box_on_scale)

lemma invoice_text_nonempty: "invoice_text \<noteq> []"
  by (simp add: invoice_text_def)

lemma clean_display_invoice:
  "clean_display invoice_data = Inr (JObj [(''invoice'', JStr ''A1'')])"
  by (simp add: clean_display_def invoice_data_def)

lemma img_size_blank: "img_size (blank_image w hg) = (w, hg)"
  by (simp add: blank_image_def)

lemma img_drawn_blank: "img_drawn (blank_image w hg) = []"
  by (simp add: blank_image_def)

text \<open>
  C4, as amended. Given the example response and an image 1000 pixels wide and 2000 high,
  either handler shows one image, the source with exactly one more rectangle on it, from
  pixel \<open>(0, 0)\<close> to pixel \<open>(500, 200)\<close>, and the clean display view is
  \<^verbatim>\<open>{"invoice": "A1"}\<close>. (\<open>x2 = (500 / 1000) * 1000\<close>, \<open>y2 = (100 / 1000) * 2000\<close>.)
\<close>

theorem end_to_end_invoice:
  assumes "loads invoice_text = Some invoice_data" and "img_size (h ! img) = (1000, 2000)"
  shows "images_shown (snd (on_response v loads h img (Some invoice_text))) =
           [(h ! img)\<lparr>img_drawn := img_drawn (h ! img) @ [Rectangle (0, 0, 500, 200) ''red'' 3]\<rparr>]
       \<and> json_shown (snd (on_response v loads h img (Some invoice_text))) =
           [JObj [(''invoice'', JStr ''A1'')]]"
  using assms
  by (cases v)
     (simp_all add: on_response_def gemini_on_response_def groq_on_response_def annotate_plan
        layout_plan_invoice invoice_text_nonempty clean_display_invoice drawn_on_def)

text \<open>C4, as amended, at a white page of 1000 by 2000 pixels.\<close>

theorem end_to_end_invoice_witness:
  "[invoice_text \<mapsto> invoice_data] invoice_text = Some invoice_data
   \<and> img_size ([blank_image 1000 2000] ! 0) = (1000, 2000)
   \<and> images_shown (snd (on_response Gemini [invoice_text \<mapsto> invoice_data]
         [blank_image 1000 2000] 0 (Some invoice_text))) =
        [(blank_image 1000 2000)\<lparr>img_drawn := [Rectangle (0, 0, 500, 200) ''red'' 3]\<rparr>]
   \<and> json_shown (snd (on_response Gemini [invoice_text \<mapsto> invoice_data]
         [blank_image 1000 2000] 0 (Some invoice_text))) = [JObj [(''invoice'', JStr ''A1'')]]"
  using end_to_end_invoice
    [of "[invoice_text \<mapsto> invoice_data]" "[blank_image 1000 2000]" 0 Gemini]
  by (simp add: img_size_blank img_drawn_blank)

text \<open>
  C4, as stated, fails: the rectangle drawn is not the one from \<open>(0, 0)\<close> to
  \<open>(1000, 200)\<close>, whether the image is 1000 wide and 2000 high or 2000 wide and 1000 high.
\<close>

theorem end_to_end_counterexample:
  "map img_drawn (images_shown (snd (gemini_on_response [invoice_text \<mapsto> invoice_data]
       [blank_image 1000 2000] 0 (Some invoice_text)))) \<noteq>
     [[Rectangle (0, 0, 1000, 200) ''red'' 3]]
   \<and> map img_drawn (images_shown (snd (gemini_on_response [invoice_text \<mapsto> invoice_data]
       [blank_image 2000 1000] 0 (Some invoice_text)))) \<noteq>
     [[Rectangle (0, 0, 1000, 200) ''red'' 3]]"
  by (simp add: gemini_on_response_def annotate_plan img_size_blank img_drawn_blank
        layout_plan_invoice layout_plan_invoice_wide invoice_text_nonempty clean_display_invoice
        drawn_on_def)

section \<open>The clean display view\<close>

lemma layout_plan_no_layout:
  "map_of kvs ''layout'' = None \<Longrightarrow> layout_plan v sz (JObj kvs) = ([], None)"
  by (simp add: layout_plan_def)

lemma drawn_on_Nil: "drawn_on i [] = i"
  by (simp add: drawn_on_def)

lemma annotate_no_layout:
  "map_of kvs ''layout'' = None \<Longrightarrow> annotate v h img (JObj kvs) = (h @ [h ! img], Inr (length h))"
  by (simp add: annotate_plan layout_plan_no_layout drawn_on_Nil)

text \<open>
  C2, as amended. For every response that parses to a JSON object without the key
  \<^verbatim>\<open>structured_data\<close>, and whose boxes are drawn without an exception, the clean display
  view shows the empty object \<^verbatim>\<open>{}\<close>, the default of \<^verbatim>\<open>data.get("structured_data", {})\<close>,
  in either handler. (The whole parsed value is only in the download, as raw text.)
\<close>

theorem clean_display_defaults_to_empty:
  assumes "loads text = Some (JObj kvs)" and "map_of kvs ''structured_data'' = None"
    and "text \<noteq> []" and "snd (annotate v h img (JObj kvs)) = Inr r"
  shows "json_shown (snd (on_response v loads h img (Some text))) = [JObj []]"
  using assms
  by (cases v)
     (auto simp: on_response_def gemini_on_response_def groq_on_response_def clean_display_def
        split: prod.splits sum.splits)

text \<open>C2, as amended, at the response \<^verbatim>\<open>{"a":1}\<close>.\<close>

theorem clean_display_defaults_to_empty_witness:
  \<open>[''{"a":1}'' \<mapsto> JObj [(''a'', JInt 1)]] ''{"a":1}'' = Some (JObj [(''a'', JInt 1)])
   \<and> map_of [(''a'', JInt 1)] ''structured_data'' = None
   \<and> ''{"a":1}'' \<noteq> []
   \<and> snd (annotate Groq [blank_image 4 3] 0 (JObj [(''a'', JInt 1)])) = Inr 1
   \<and> json_shown (snd (on_response Groq [''{"a":1}'' \<mapsto> JObj [(''a'', JInt 1)]]
        [blank_image 4 3] 0 (Some ''{"a":1}''))) = [JObj []]\<close>
  using clean_display_defaults_to_empty
    [of \<open>[''{"a":1}'' \<mapsto> JObj [(''a'', JInt 1)]]\<close> \<open>''{"a":1}''\<close> "[(''a'', JInt 1)]"
        Groq "[blank_image 4 3]" 0 1]
  by (simp add: annotate_no_layout)

text \<open>
  C2, as stated, fails: for the response \<^verbatim>\<open>{"a":1}\<close> neither handler shows \<^verbatim>\<open>{"a":1}\<close> as
  the clean display view.
\<close>

theorem clean_display_counterexample:
  \<open>json_shown (snd (gemini_on_response [''{"a":1}'' \<mapsto> JObj [(''a'', JInt 1)]]
      [blank_image 4 3] 0 (Some ''{"a":1}''))) \<noteq> [JObj [(''a'', JInt 1)]]
   \<and> json_shown (snd (groq_on_response [''{"a":1}'' \<mapsto> JObj [(''a'', JInt 1)]]
      [blank_image 4 3] 0 (Some ''{"a":1}''))) \<noteq> [JObj [(''a'', JInt 1)]]
   \<and> clean_display (JObj [(''a'', JInt 1)]) = Inr (JObj [])\<close>
  by (simp add: gemini_on_response_def groq_on_response_def annotate_no_layout clean_display_def)

section \<open>Responses that do not parse\<close>




section \<open>Layout entries without a usable box\<close>









section \<open>Payloads without a layout\<close>

text \<open>
  C6, as amended. For every response that parses to a JSON object without the key
  \<^verbatim>\<open>layout\<close>, the layout defaults to the empty list, no rectangle is drawn (the copy is the
  source as it is), no error is reported, and the clean display view is the value of
  \<^verbatim>\<open>structured_data\<close>, or \<^verbatim>\<open>{}\<close> without one, in either handler.
\<close>

theorem missing_layout_draws_nothing:
  assumes "loads text = Some (JObj kvs)" and "map_of kvs ''layout'' = None" and "text \<noteq> []"
  shows "dict_get (JObj kvs) ''layout'' (JArr []) = Inr (JArr [])
       \<and> annotate v h img (JObj kvs) = (h @ [h ! img], Inr (length h))
       \<and> images_shown (snd (on_response v loads h img (Some text))) = [h ! img]
       \<and> json_shown (snd (on_response v loads h img (Some text))) =
           [case map_of kvs ''structured_data'' of None \<Rightarrow> JObj [] | Some d \<Rightarrow> d]
       \<and> \<not> list_ex is_error (snd (on_response v loads h img (Some text)))"
  using assms
  by (cases v)
     (simp_all add: on_response_def gemini_on_response_def groq_on_response_def
        annotate_no_layout clean_display_def)

text \<open>C6, as amended, at the response \<^verbatim>\<open>{"a":1}\<close>.\<close>

theorem missing_layout_draws_nothing_witness:
  \<open>[''{"a":1}'' \<mapsto> JObj [(''a'', JInt 1)]] ''{"a":1}'' = Some (JObj [(''a'', JInt 1)])
   \<and> map_of [(''a'', JInt 1)] ''layout'' = None
   \<and> ''{"a":1}'' \<noteq> []
   \<and> dict_get (JObj [(''a'', JInt 1)]) ''layout'' (JArr []) = Inr (JArr [])
   \<and> annotate Gemini [blank_image 4 3] 0 (JObj [(''a'', JInt 1)]) =
        ([blank_image 4 3] @ [[blank_image 4 3] ! 0], Inr (length [blank_image 4 3]))
   \<and> images_shown (snd (on_response Gemini [''{"a":1}'' \<mapsto> JObj [(''a'', JInt 1)]]
        [blank_image 4 3] 0 (Some ''{"a":1}''))) = [[blank_image 4 3] ! 0]
   \<and> json_shown (snd (on_response Gemini [''{"a":1}'' \<mapsto> JObj [(''a'', JInt 1)]]
        [blank_image 4 3] 0 (Some ''{"a":1}''))) = [JObj []]
   \<and> \<not> list_ex is_error (snd (on_response Gemini [''{"a":1}'' \<mapsto> JObj [(''a'', JInt 1)]]
        [blank_image 4 3] 0 (Some ''{"a":1}'')))\<close>
  using missing_layout_draws_nothing
    [of \<open>[''{"a":1}'' \<mapsto> JObj [(''a'', JInt 1)]]\<close> \<open>''{"a":1}''\<close> "[(''a'', JInt 1)]"
        Gemini "[blank_image 4 3]" 0]
  by simp

text \<open>
  C6, as stated, fails: the response \<^verbatim>\<open>[]\<close> parses, to a list, and has no key \<^verbatim>\<open>layout\<close>;
  a list has no \<^verbatim>\<open>get\<close>, so the drawing raises \<^verbatim>\<open>AttributeError\<close> and the page shows the
  error and no data.
\<close>

theorem missing_layout_counterexample:
  "gemini_on_response [''[]'' \<mapsto> JArr []] [blank_image 4 3] 0 (Some ''[]'') =
     ([blank_image 4 3, blank_image 4 3], [StErrorExc AttributeError])"
  by (simp add: gemini_on_response_def annotate_plan layout_plan_def drawn_on_Nil)

section \<open>The source image and its copies\<close>

lemma fst_annotate: "\<exists>c. fst (annotate v h img data) = h @ [c]"
  by (simp add: annotate_plan)

lemma fst_on_response: "fst (on_response v loads h img resp) = h \<or> (\<exists>c. fst (on_response v loads h img resp) = h @ [c])"
  by (cases v)
     (auto simp: on_response_def gemini_on_response_def groq_on_response_def annotate_plan
        split: option.splits sum.splits prod.splits)

text \<open>
  C7. Annotation works on a copy: for every store, every source image in it, every parsed
  payload and every response, the source object and every other object that was there
  before are unchanged afterwards, also when the drawing ends in an exception; what is
  drawn on, and returned, is a new object.
\<close>

theorem source_image_unchanged:
  assumes "img < length h"
  shows "fst (annotate v h img data) ! img = h ! img
       \<and> take (length h) (fst (annotate v h img data)) = h
       \<and> (case snd (annotate v h img data) of Inl e \<Rightarrow> True | Inr final \<Rightarrow> final = length h \<and> final \<noteq> img)
       \<and> fst (on_response v loads h img resp) ! img = h ! img
       \<and> take (length h) (fst (on_response v loads h img resp)) = h"
proof -
  obtain c where c: "fst (annotate v h img data) = h @ [c]"
    using fst_annotate by blast
  have r: "case snd (annotate v h img data) of Inl e \<Rightarrow> True | Inr final \<Rightarrow> final = length h \<and> final \<noteq> img"
    using assms by (simp add: annotate_plan split: option.splits)
  from fst_on_response[of v loads h img resp]
  have o: "fst (on_response v loads h img resp) ! img = h ! img
         \<and> take (length h) (fst (on_response v loads h img resp)) = h"
    using assms by (auto simp: nth_append)
  from c r o assms show ?thesis by (simp add: nth_append)
qed

text \<open>C7 at a white page and the example response.\<close>

theorem source_image_unchanged_witness:
  "(0::nat) < length [blank_image 1000 2000]
   \<and> fst (annotate Gemini [blank_image 1000 2000] 0 invoice_data) ! 0 = [blank_image 1000 2000] ! 0
   \<and> take (length [blank_image 1000 2000]) (fst (annotate Gemini [blank_image 1000 2000] 0 invoice_data))
       = [blank_image 1000 2000]
   \<and> (case snd (annotate Gemini [blank_image 1000 2000] 0 invoice_data) of
        Inl e \<Rightarrow> True | Inr final \<Rightarrow> final = length [blank_image 1000 2000] \<and> final \<noteq> 0)
   \<and> fst (on_response Gemini [invoice_text \<mapsto> invoice_data] [blank_image 1000 2000] 0
        (Some invoice_text)) ! 0 = [blank_image 1000 2000] ! 0
   \<and> take (length [blank_image 1000 2000])
        (fst (on_response Gemini [invoice_text \<mapsto> invoice_data] [blank_image 1000 2000] 0
           (Some invoice_text))) = [blank_image 1000 2000]"
proof -
  have l: "(0::nat) < length [blank_image 1000 2000]" by simp
  show ?thesis
    using l source_image_unchanged [OF l, of Gemini invoice_data "[invoice_text \<mapsto> invoice_data]" "Some invoice_text"]
    by blast
qed

text \<open>
  C8. Rendering the same payload onto two separate copies of the same source gives two
  equal images (same size, same pixel data, same rectangles in the same order) and the
  same outcome; a handler run twice on the same response shows equal images.
\<close>

theorem rendering_deterministic:
  assumes "img < length h"
  shows "fst (annotate v (fst (annotate v h img data)) img data) ! length h =
         fst (annotate v (fst (annotate v h img data)) img data) ! Suc (length h)
       \<and> isl (snd (annotate v (fst (annotate v h img data)) img data)) = isl (snd (annotate v h img data))
       \<and> images_shown (snd (on_response v loads (fst (on_response v loads h img resp)) img resp)) =
         images_shown (snd (on_response v loads h img resp))"
proof -
  have a: "fst (annotate v (fst (annotate v h img data)) img data) ! length h =
         fst (annotate v (fst (annotate v h img data)) img data) ! Suc (length h)
       \<and> isl (snd (annotate v (fst (annotate v h img data)) img data)) = isl (snd (annotate v h img data))"
    using assms by (simp add: annotate_plan nth_append split: option.splits)
  have b: "images_shown (snd (on_response v loads (fst (on_response v loads h img resp)) img resp)) =
         images_shown (snd (on_response v loads h img resp))"
    using assms
    by (cases v)
       (auto simp: on_response_def gemini_on_response_def groq_on_response_def annotate_plan
          nth_append split: option.splits sum.splits)
  from a b show ?thesis by simp
qed

text \<open>C8 at a white page and the example response.\<close>

theorem rendering_deterministic_witness:
  "(0::nat) < length [blank_image 1000 2000]
   \<and> fst (annotate Groq (fst (annotate Groq [blank_image 1000 2000] 0 invoice_data)) 0 invoice_data)
        ! length [blank_image 1000 2000] =
      fst (annotate Groq (fst (annotate Groq [blank_image 1000 2000] 0 invoice_data)) 0 invoice_data)
        ! Suc (length [blank_image 1000 2000])
   \<and> isl (snd (annotate Groq (fst (annotate Groq [blank_image 1000 2000] 0 invoice_data)) 0 invoice_data))
      = isl (snd (annotate Groq [blank_image 1000 2000] 0 invoice_data))
   \<and> images_shown (snd (on_response Groq [invoice_text \<mapsto> invoice_data]
        (fst (on_response Groq [invoice_text \<mapsto> invoice_data] [blank_image 1000 2000] 0
           (Some invoice_text))) 0 (Some invoice_text))) =
      images_shown (snd (on_response Groq [invoice_text \<mapsto> invoice_data] [blank_image 1000 2000] 0
        (Some invoice_text)))"
proof -
  have l: "(0::nat) < length [blank_image 1000 2000]" by simp
  show ?thesis
    using l rendering_deterministic [OF l, of Groq invoice_data "[invoice_text \<mapsto> invoice_data]" "Some invoice_text"]
    by blast
qed

section \<open>The text of a layout entry\<close>







section \<open>The declared media type\<close>

text \<open>
  C10. In the three files that encode the upload, whatever the file's name, type and
  bytes, the image part of the request carries the URL \<^verbatim>\<open>data:image/jpeg;base64,\<close>
  followed by the encoded bytes; the file's own name and type play no part.
\<close>

theorem image_sent_as_jpeg:
  "part_url (image_part i b64encode f) = ''data:image/jpeg;base64,'' @ b64encode (file_bytes f)
   \<and> prefix ''data:image/jpeg;base64,'' (part_url (image_part i b64encode f))
   \<and> image_part i b64encode (f\<lparr>file_name := n, file_type := t\<rparr>) = image_part i b64encode f"
  by (cases i) (simp_all add: encode_image_def)

end
